theory Spec2Isabelle
  imports Main "HOL-Library.Sublist"
begin

section \<open>JavaScript values\<close>

text \<open>
  The values that \<^verbatim>\<open>JSON.parse\<close> produces. A JavaScript value that may be
  \<^verbatim>\<open>undefined\<close> is a \<open>json option\<close>, with \<open>None\<close> for \<^verbatim>\<open>undefined\<close>.
  Numbers are only ever tested for being zero here, so they are integers.
  An object is the list of its own properties.
\<close>

datatype json =
    JNull
  | JBool bool
  | JNum int
  | JStr string
  | JArr "json list"
  | JObj "(string \<times> json) list"

text \<open>
  The faults of the program: the errors of the file system calls, the \<^verbatim>\<open>SyntaxError\<close>
  of \<^verbatim>\<open>JSON.parse\<close> and the \<^verbatim>\<open>TypeError\<close> of a property read on \<^verbatim>\<open>null\<close>.
  The code never looks at the kind of a fault it catches.
\<close>

datatype error = ENOENT | ENOTDIR | EISDIR | SyntaxError | TypeError

text \<open>
  The property read \<^verbatim>\<open>v.k\<close>, for a name \<open>k\<close> that no prototype defines (all the names
  read in this program: \<^verbatim>\<open>wavebox_extension_id\<close>, \<^verbatim>\<open>version\<close>, \<^verbatim>\<open>default_locale\<close>,
  \<^verbatim>\<open>path\<close>): it throws on \<^verbatim>\<open>null\<close>, looks the name up in an object and is
  \<^verbatim>\<open>undefined\<close> on every other value.
\<close>

fun get_prop :: "json \<Rightarrow> string \<Rightarrow> error + json option" where
  "get_prop JNull k = Inl TypeError"
| "get_prop (JObj kvs) k = Inr (map_of kvs k)"
| "get_prop v k = Inr None"

fun truthy :: "json option \<Rightarrow> bool" where
  "truthy None = False"
| "truthy (Some JNull) = False"
| "truthy (Some (JBool b)) = b"
| "truthy (Some (JNum n)) = (n \<noteq> 0)"
| "truthy (Some (JStr s)) = (s \<noteq> [])"
| "truthy (Some v) = True"

text \<open>The JavaScript expression \<^verbatim>\<open>a || b\<close>.\<close>

definition or_else :: "json option \<Rightarrow> json \<Rightarrow> json" where
  "or_else a b = (case a of None \<Rightarrow> b | Some v \<Rightarrow> if truthy a then v else b)"

section \<open>Strings and paths\<close>

text \<open>\<^verbatim>\<open>String.prototype.split\<close> on a one-character separator, and \<^verbatim>\<open>Array.prototype.join\<close>.\<close>

fun split_on :: "char \<Rightarrow> string \<Rightarrow> string list" where
  "split_on d [] = [[]]"
| "split_on d (c # cs) =
     (if c = d then [] # split_on d cs
      else (case split_on d cs of [] \<Rightarrow> [[c]] | x # xs \<Rightarrow> (c # x) # xs))"

fun join_with :: "string \<Rightarrow> string list \<Rightarrow> string" where
  "join_with sep [] = []"
| "join_with sep [x] = x"
| "join_with sep (x # y # ys) = x @ sep @ join_with sep (y # ys)"

text \<open>
  A path is the list of the segments of an absolute, normalised POSIX path (the install
  root is one: \<^verbatim>\<open>RuntimePaths.CHROME_EXTENSION_INSTALL_PATH\<close>, which is not part of the
  sources and is a parameter \<open>root\<close> of every function below).
  \<^verbatim>\<open>path.join(base, a1, ..., an)\<close> concatenates its arguments with \<^verbatim>\<open>/\<close> and normalises
  the result: empty segments and \<^verbatim>\<open>.\<close> are dropped, and \<^verbatim>\<open>..\<close> removes the segment
  before it (at the top of an absolute path it is dropped).
\<close>

type_synonym path = "string list"

fun normalize :: "path \<Rightarrow> string list \<Rightarrow> path" where
  "normalize acc [] = acc"
| "normalize acc (s # ss) =
     (if s = [] \<or> s = ''.'' then normalize acc ss
      else if s = ''..'' then normalize (butlast acc) ss
      else normalize (acc @ [s]) ss)"

definition path_join :: "path \<Rightarrow> string list \<Rightarrow> path" where
  "path_join base args = normalize base (concat (map (split_on CHR ''/'') args))"

section \<open>The file system\<close>

text \<open>
  A file is represented by what \<^verbatim>\<open>JSON.parse\<close> makes of its content (\<open>None\<close> when the
  content is not JSON); a directory by the list of its entries, in the order
  \<^verbatim>\<open>readdirSync\<close> lists them.
\<close>

datatype node = File "json option" | Dir "(string \<times> node) list"

fun lookup :: "node \<Rightarrow> path \<Rightarrow> node option" where
  "lookup n [] = Some n"
| "lookup (File c) (s # p) = None"
| "lookup (Dir es) (s # p) = (case map_of es s of None \<Rightarrow> None | Some n \<Rightarrow> lookup n p)"

definition readdirSync :: "node \<Rightarrow> path \<Rightarrow> error + string list" where
  "readdirSync fs p =
     (case lookup fs p of
        None \<Rightarrow> Inl ENOENT
      | Some (File c) \<Rightarrow> Inl ENOTDIR
      | Some (Dir es) \<Rightarrow> Inr (map fst es))"

definition readJsonSync :: "node \<Rightarrow> path \<Rightarrow> error + json" where
  "readJsonSync fs p =
     (case lookup fs p of
        None \<Rightarrow> Inl ENOENT
      | Some (Dir es) \<Rightarrow> Inl EISDIR
      | Some (File None) \<Rightarrow> Inl SyntaxError
      | Some (File (Some j)) \<Rightarrow> Inr j)"

definition existsSync :: "node \<Rightarrow> path \<Rightarrow> bool" where
  "existsSync fs p = (lookup fs p \<noteq> None)"

text \<open>
  The recursive removal of a path (what \<^verbatim>\<open>rimraf\<close> does once it has run): the entry and
  everything below it go; a path that does not exist is left alone; the top directory
  itself can only be emptied.
\<close>

fun rm :: "path \<Rightarrow> node \<Rightarrow> node" where
  "rm [] n = (case n of File c \<Rightarrow> File c | Dir es \<Rightarrow> Dir [])"
| "rm (s # p) (File c) = File c"
| "rm [s] (Dir es) = Dir (filter (\<lambda>(k, n). k \<noteq> s) es)"
| "rm (s # p) (Dir es) = Dir (map (\<lambda>(k, n). if k = s then (k, rm p n) else (k, n)) es)"

text \<open>
  \<^verbatim>\<open>writeFileSync\<close>: the directory of the file must exist, and the file must not be a
  directory.
\<close>

fun put :: "path \<Rightarrow> node \<Rightarrow> node \<Rightarrow> error + node" where
  "put [] new n = Inl EISDIR"
| "put (s # p) new (File c) = Inl ENOTDIR"
| "put [s] new (Dir es) =
     (case map_of es s of
        None \<Rightarrow> Inr (Dir (es @ [(s, new)]))
      | Some (Dir ds) \<Rightarrow> Inl EISDIR
      | Some (File c) \<Rightarrow> Inr (Dir (map (\<lambda>(k, n). if k = s then (k, new) else (k, n)) es)))"
| "put (s # p) new (Dir es) =
     (case map_of es s of
        None \<Rightarrow> Inl ENOENT
      | Some d \<Rightarrow>
          (case put p new d of
             Inl e \<Rightarrow> Inl e
           | Inr d' \<Rightarrow> Inr (Dir (map (\<lambda>(k, n). if k = s then (k, d') else (k, n)) es))))"

text \<open>
  The state of the program: the file tree, and the removals that \<^verbatim>\<open>fs.remove\<close> has
  started. \<^verbatim>\<open>fs.remove\<close> is the asynchronous removal of fs-extra (the synchronous one is
  \<^verbatim>\<open>removeSync\<close>): the call returns at once, and the tree is removed later, when the
  event loop runs. \<open>settle\<close> is the state once every started removal has run.
\<close>

record disk =
  tree :: node
  pending :: "path list"

definition settle :: "disk \<Rightarrow> disk" where
  "settle st = \<lparr>tree = foldl (\<lambda>t p. rm p t) (tree st) (pending st), pending = []\<rparr>"

text \<open>
  \<^verbatim>\<open>fs.remove(p)\<close>: with a string it starts the removal; with anything else
  (\<^verbatim>\<open>undefined\<close>) its check of the argument fails and nothing is removed.
\<close>

definition fs_remove :: "path option \<Rightarrow> disk \<Rightarrow> disk" where
  "fs_remove p st = (case p of None \<Rightarrow> st | Some q \<Rightarrow> st\<lparr>pending := pending st @ [q]\<rparr>)"

text \<open>A JavaScript value used as a path argument: a string is a path, nothing else is.\<close>

definition path_arg :: "json option \<Rightarrow> path option" where
  "path_arg v = (case v of Some (JStr s) \<Rightarrow> Some (path_join [] [s]) | _ \<Rightarrow> None)"

definition writeFileSync :: "path \<Rightarrow> json option \<Rightarrow> disk \<Rightarrow> error + disk" where
  "writeFileSync p content st =
     (case put p (File content) (tree st) of
        Inl e \<Rightarrow> Inl e
      | Inr t \<Rightarrow> Inr (st\<lparr>tree := t\<rparr>))"

section \<open>The semver package\<close>

text \<open>
  The two functions of the semver package that the program calls are parameters:
  \<^verbatim>\<open>semver.valid\<close> (\<open>None\<close> for \<^verbatim>\<open>null\<close>) and \<^verbatim>\<open>semver.gt\<close>, which the program only
  calls on results of \<^verbatim>\<open>semver.valid\<close>.
\<close>

record semver =
  valid :: "string \<Rightarrow> string option"
  gt :: "string \<Rightarrow> string \<Rightarrow> bool"

text \<open>
  \<^verbatim>\<open>Array.prototype.sort\<close> with a comparator, as a stable insertion sort. Where the
  comparator is a strict total order on the elements, every sorting algorithm returns
  this list.
\<close>

fun insert_by :: "('a \<Rightarrow> 'a \<Rightarrow> int) \<Rightarrow> 'a \<Rightarrow> 'a list \<Rightarrow> 'a list" where
  "insert_by cmp x [] = [x]"
| "insert_by cmp x (y # ys) = (if cmp x y \<le> 0 then x # y # ys else y # insert_by cmp x ys)"

definition array_sort :: "('a \<Rightarrow> 'a \<Rightarrow> int) \<Rightarrow> 'a list \<Rightarrow> 'a list" where
  "array_sort cmp xs = foldr (insert_by cmp) xs []"

section \<open>CRExtensionFS\<close>

definition UNINSTALL_FLAG :: string where
  "UNINSTALL_FLAG = ''__uninstall__''"

definition listInstalledExtensionIds :: "path \<Rightarrow> node \<Rightarrow> string list" where
  "listInstalledExtensionIds root fs =
     (case readdirSync fs root of Inr names \<Rightarrow> names | Inl ex \<Rightarrow> [])"

definition readManifest :: "path \<Rightarrow> node \<Rightarrow> string \<Rightarrow> string \<Rightarrow> json" where
  "readManifest root fs extensionId versionString =
     (case readJsonSync fs (path_join root [extensionId, versionString, ''manifest.json'']) of
        Inr manifest \<Rightarrow> manifest
      | Inl ex \<Rightarrow> JObj [])"

text \<open>
  The objects that \<^verbatim>\<open>listInstalledVersions\<close> builds have four properties, all strings.
  \<open>own_props\<close> is the object literal of the source; a read of any other property of such
  an object goes through it.
\<close>

record VersionInfo =
  extensionId :: string
  version :: string
  revision :: string
  versionString :: string

definition own_props :: "VersionInfo \<Rightarrow> json" where
  "own_props info = JObj
     [(''extensionId'', JStr (extensionId info)),
      (''version'', JStr (version info)),
      (''revision'', JStr (revision info)),
      (''versionString'', JStr (versionString info))]"

text \<open>The function mapped over the directory names (\<open>None\<close> is \<^verbatim>\<open>undefined\<close>).\<close>

definition parse_entry :: "semver \<Rightarrow> string \<Rightarrow> string \<Rightarrow> VersionInfo option" where
  "parse_entry sv extId versionStr =
     (case split_on CHR ''_'' versionStr of
        [] \<Rightarrow> None
      | c0 # rest \<Rightarrow>
          (case valid sv c0 of
             None \<Rightarrow> None
           | Some v \<Rightarrow>
               Some \<lparr>extensionId = extId, version = v,
                     revision = join_with ''_'' rest, versionString = versionStr\<rparr>))"

text \<open>The predicate of the second filter; a fault in it ends the whole listing.\<close>

definition manifest_matches :: "path \<Rightarrow> node \<Rightarrow> VersionInfo \<Rightarrow> error + bool" where
  "manifest_matches root fs info =
     (let manifestInfo = readManifest root fs (extensionId info) (versionString info) in
      case get_prop manifestInfo ''wavebox_extension_id'' of
        Inl e \<Rightarrow> Inl e
      | Inr declared_id \<Rightarrow>
          if declared_id \<noteq> Some (JStr (extensionId info)) then Inr False
          else
            (case get_prop manifestInfo ''version'' of
               Inl e \<Rightarrow> Inl e
             | Inr declared_version \<Rightarrow>
                 if declared_version \<noteq> Some (JStr (version info)) then Inr False
                 else Inr True))"

fun filter_err :: "('a \<Rightarrow> error + bool) \<Rightarrow> 'a list \<Rightarrow> error + 'a list" where
  "filter_err f [] = Inr []"
| "filter_err f (x # xs) =
     (case f x of
        Inl e \<Rightarrow> Inl e
      | Inr keep \<Rightarrow>
          (case filter_err f xs of
             Inl e \<Rightarrow> Inl e
           | Inr ys \<Rightarrow> Inr (if keep then x # ys else ys)))"

definition listInstalledVersions ::
  "semver \<Rightarrow> path \<Rightarrow> node \<Rightarrow> string \<Rightarrow> error + VersionInfo list" where
  "listInstalledVersions sv root fs extId =
     (let versionStrings =
            (case readdirSync fs (path_join root [extId]) of
               Inr names \<Rightarrow> names
             | Inl ex \<Rightarrow> [])
      in filter_err (manifest_matches root fs)
           (List.map_filter (parse_entry sv extId) versionStrings))"

definition isSetForRemoval :: "node \<Rightarrow> path \<Rightarrow> bool" where
  "isSetForRemoval fs rootPath = existsSync fs (path_join rootPath [UNINSTALL_FLAG])"

definition resolvePath :: "path \<Rightarrow> string \<Rightarrow> string \<Rightarrow> path" where
  "resolvePath root extId versionStr = path_join root [extId, versionStr]"

text \<open>
  \<^verbatim>\<open>CRExtension._sanitizePathValue_\<close> and \<^verbatim>\<open>CRExtensionI18n.translatedManifest\<close> are not
  part of the sources: they are the parameters \<open>sanitize\<close> and \<open>translate\<close>, and either
  may throw.
\<close>

definition loadTranslatedManifest ::
  "(json \<Rightarrow> error + string) \<Rightarrow> (json \<Rightarrow> json \<Rightarrow> error + 'm) \<Rightarrow>
   path \<Rightarrow> node \<Rightarrow> string \<Rightarrow> string \<Rightarrow> string \<Rightarrow> error + 'm" where
  "loadTranslatedManifest sanitize translate root fs extId versionStr locale =
     (let rootPath = path_join root [extId, versionStr] in
      case readJsonSync fs (path_join rootPath [''manifest.json'']) of
        Inl e \<Rightarrow> Inl e
      | Inr manifest \<Rightarrow>
          (let messages =
             (case readJsonSync fs (path_join rootPath [''_locales'', locale, ''messages.json'']) of
                Inr m \<Rightarrow> m
              | Inl ex \<Rightarrow>
                  (case get_prop manifest ''default_locale'' of
                     Inl ex2 \<Rightarrow> JObj []
                   | Inr d \<Rightarrow>
                       (case sanitize (or_else d (JStr ''en'')) of
                          Inl ex2 \<Rightarrow> JObj []
                        | Inr defaultLocale \<Rightarrow>
                            (case readJsonSync fs
                                    (path_join rootPath
                                       [''_locales'', defaultLocale, ''messages.json'']) of
                               Inr m \<Rightarrow> m
                             | Inl ex2 \<Rightarrow> JObj []))))
           in translate messages manifest))"

text \<open>
  \<^verbatim>\<open>updateEntry\<close> returns its value (\<open>None\<close> is \<^verbatim>\<open>undefined\<close>) or throws, and the state
  it leaves. \<^verbatim>\<open>info.path\<close> is a property read on an object built by
  \<^verbatim>\<open>listInstalledVersions\<close>; the \<^verbatim>\<open>try\<close> around each \<^verbatim>\<open>fs.remove\<close> swallows a fault.
\<close>

definition remove_entry :: "VersionInfo \<Rightarrow> disk \<Rightarrow> disk" where
  "remove_entry info st =
     (case get_prop (own_props info) ''path'' of
        Inl ex \<Rightarrow> st
      | Inr p \<Rightarrow> fs_remove (path_arg p) st)"

definition updateEntry ::
  "semver \<Rightarrow> path \<Rightarrow> string \<Rightarrow> disk \<Rightarrow> (error + VersionInfo option) \<times> disk" where
  "updateEntry sv root extId st =
     (let rootPath = path_join root [extId] in
      if isSetForRemoval (tree st) rootPath then (Inr None, fs_remove (Some rootPath) st)
      else
        (case listInstalledVersions sv root (tree st) extId of
           Inl e \<Rightarrow> (Inl e, st)
         | Inr versions \<Rightarrow>
             if length versions > 1 then
               (case array_sort
                       (\<lambda>a b. if gt sv (version a) (version b) then - 1 else 1) versions of
                  [] \<Rightarrow> (Inr None, st)
                | latest # remove \<Rightarrow>
                    (Inr (Some latest), foldl (\<lambda>s info. remove_entry info s) st remove))
             else if length versions = 1 then (Inr (Some (versions ! 0)), st)
             else (Inr None, st)))"

definition setForRemoval :: "path \<Rightarrow> string \<Rightarrow> disk \<Rightarrow> error + disk" where
  "setForRemoval root extId st =
     writeFileSync (path_join root [extId, UNINSTALL_FLAG]) None st"

section \<open>Passes and candidates\<close>

text \<open>
  One reconciliation pass from a quiet state (no removal under way): the tree once the
  removals that \<^verbatim>\<open>updateEntry\<close> started have run, and what \<^verbatim>\<open>updateEntry\<close> returned.
\<close>

definition reconcile_pass :: "semver \<Rightarrow> path \<Rightarrow> string \<Rightarrow> node \<Rightarrow> node" where
  "reconcile_pass sv root e t =
     tree (settle (snd (updateEntry sv root e \<lparr>tree = t, pending = []\<rparr>)))"

definition reconcile_outcome ::
  "semver \<Rightarrow> path \<Rightarrow> string \<Rightarrow> node \<Rightarrow> error + VersionInfo option" where
  "reconcile_outcome sv root e t = fst (updateEntry sv root e \<lparr>tree = t, pending = []\<rparr>)"

text \<open>
  A directory name is a valid candidate when its first segment parses as a version and
  its manifest declares the extension id and that version.
\<close>

definition is_candidate :: "semver \<Rightarrow> path \<Rightarrow> node \<Rightarrow> string \<Rightarrow> string \<Rightarrow> bool" where
  "is_candidate sv root fs e d =
     (case parse_entry sv e d of
        None \<Rightarrow> False
      | Some info \<Rightarrow> manifest_matches root fs info = Inr True)"

text \<open>
  A recursive removal of \<open>p\<close> that ended early: it removed the entries \<open>names\<close> of the
  directory \<open>p\<close> and failed on the others, so that \<open>p\<close> itself stays.
\<close>

definition rm_partly :: "path \<Rightarrow> string list \<Rightarrow> node \<Rightarrow> node" where
  "rm_partly p names t = foldl (\<lambda>t n. rm (p @ [n]) t) t names"

section \<open>Concrete inputs\<close>

text \<open>
  An instance of the semver parameters for the concrete inputs below: the semver package
  on plain version strings \<^verbatim>\<open>MAJOR.MINOR.PATCH\<close> (three numeric identifiers without
  leading zeros; no prefix, prerelease or build tag), where \<^verbatim>\<open>semver.valid\<close> returns its
  argument and \<^verbatim>\<open>semver.gt\<close> compares the three numbers in order. Every other string is
  rejected by this instance.
\<close>

definition numeric_identifier :: "string \<Rightarrow> bool" where
  "numeric_identifier s =
     (s \<noteq> [] \<and> list_all (\<lambda>c. c \<in> set ''0123456789'') s \<and>
      (if hd s = CHR ''0'' then s = ''0'' else True))"

definition digit_val :: "char \<Rightarrow> nat" where
  "digit_val c = of_char c - 48"

definition nat_of_digits :: "string \<Rightarrow> nat" where
  "nat_of_digits s = foldl (\<lambda>n c. 10 * n + digit_val c) 0 s"

fun list_gt :: "nat list \<Rightarrow> nat list \<Rightarrow> bool" where
  "list_gt (x # xs) (y # ys) = (x > y \<or> (x = y \<and> list_gt xs ys))"
| "list_gt xs ys = False"

definition plain_semver :: semver where
  "plain_semver = \<lparr>
     valid = (\<lambda>s. case split_on CHR ''.'' s of
                [a, b, c] \<Rightarrow>
                  if numeric_identifier a \<and> numeric_identifier b \<and> numeric_identifier c
                  then Some s else None
              | _ \<Rightarrow> None),
     gt = (\<lambda>a b. list_gt (map nat_of_digits (split_on CHR ''.'' a))
                         (map nat_of_digits (split_on CHR ''.'' b)))\<rparr>"

text \<open>
  Stand-ins for the two functions of \<^verbatim>\<open>shared/Models/CRExtension\<close> in the concrete
  inputs: a sanitizer that accepts any string as it is, and a translation that returns
  the message bundle it was given together with the manifest.
\<close>

definition sanitize_string :: "json \<Rightarrow> error + string" where
  "sanitize_string v = (case v of JStr s \<Rightarrow> Inr s | _ \<Rightarrow> Inl TypeError)"

definition pair_translation :: "json \<Rightarrow> json \<Rightarrow> error + (json \<times> json)" where
  "pair_translation messages manifest = Inr (messages, manifest)"

definition install_root :: path where
  "install_root = [''data'', ''extensions'']"

definition manifest_json :: "string \<Rightarrow> string \<Rightarrow> json" where
  "manifest_json i v = JObj [(''wavebox_extension_id'', JStr i), (''version'', JStr v)]"

definition version_dir :: "string \<Rightarrow> string \<Rightarrow> node" where
  "version_dir i v = Dir [(''manifest.json'', File (Some (manifest_json i v)))]"

definition info_of :: "string \<Rightarrow> string \<Rightarrow> string \<Rightarrow> VersionInfo" where
  "info_of i v r =
     \<lparr>extensionId = i, version = v, revision = r, versionString = v @ ''_'' @ r\<rparr>"

definition under_root :: "(string \<times> node) list \<Rightarrow> node" where
  "under_root es = Dir [(''data'', Dir [(''extensions'', Dir es)])]"

text \<open>The scenario of two versions: \<^verbatim>\<open>ext1\<close> with \<^verbatim>\<open>1.0.0_r1\<close> and \<^verbatim>\<open>1.1.0_r1\<close>.\<close>

definition fs_two :: node where
  "fs_two = under_root
     [(''ext1'', Dir
        [(''1.0.0_r1'', version_dir ''ext1'' ''1.0.0''),
         (''1.1.0_r1'', version_dir ''ext1'' ''1.1.0'')])]"

text \<open>
  One valid version beside a directory whose name is no version and one whose manifest
  declares another version.
\<close>

definition fs_one :: node where
  "fs_one = under_root
     [(''ext1'', Dir
        [(''not-a-version'', Dir [(''data.bin'', File None)]),
         (''2.0.0_abc'', version_dir ''ext1'' ''1.9.9''),
         (''1.1.0_r1'', version_dir ''ext1'' ''1.1.0'')])]"

text \<open>Two valid versions beside the two invalid directories.\<close>

definition fs_mixed :: node where
  "fs_mixed = under_root
     [(''ext1'', Dir
        [(''1.0.0_r1'', version_dir ''ext1'' ''1.0.0''),
         (''not-a-version'', Dir [(''data.bin'', File None)]),
         (''2.0.0_abc'', version_dir ''ext1'' ''1.9.9''),
         (''1.1.0_r1'', version_dir ''ext1'' ''1.1.0'')])]"

text \<open>A version directory whose \<^verbatim>\<open>manifest.json\<close> holds the JSON text \<^verbatim>\<open>null\<close>.\<close>

definition fs_null :: node where
  "fs_null = under_root
     [(''ext1'', Dir
        [(''1.0.0_r1'', version_dir ''ext1'' ''1.0.0''),
         (''2.0.0_r1'', Dir [(''manifest.json'', File (Some JNull))])])]"

text \<open>Extensions marked for removal, and an install root without extensions.\<close>

definition fs_flagged :: node where
  "fs_flagged = under_root
     [(''ext1'', Dir
        [(''__uninstall__'', File None),
         (''not-a-version'', Dir [(''data.bin'', File None)]),
         (''1.0.0_r1'', version_dir ''ext1'' ''1.0.0''),
         (''2.0.0_r1'', Dir [(''manifest.json'', File (Some JNull))])]),
      (''ext2'', Dir [(''__uninstall__'', File None)])]"

definition fs_empty :: node where
  "fs_empty = under_root []"

text \<open>A manifest outside the install root, beside it.\<close>

definition fs_outside :: node where
  "fs_outside = Dir [(''data'', Dir
     [(''extensions'', Dir []),
      (''outside'', Dir [(''1.0.0'', version_dir ''other'' ''9.9.9'')])])]"

text \<open>A version with a default locale, a bundle for it and none for any other locale.\<close>

definition fs_locales :: node where
  "fs_locales = under_root
     [(''ext1'', Dir
        [(''1.0.0_r1'', Dir
           [(''manifest.json'', File (Some (JObj
               [(''wavebox_extension_id'', JStr ''ext1''), (''version'', JStr ''1.0.0''),
                (''default_locale'', JStr ''fr'')]))),
            (''_locales'', Dir
               [(''fr'', Dir [(''messages.json'', File (Some (JObj [(''hello'', JStr ''bonjour'')])))])])]),
         (''1.1.0_r1'', version_dir ''ext1'' ''1.1.0'')])]"

text \<open>
  An extension marked for removal with one valid version; an extension whose only
  directory has a manifest holding \<^verbatim>\<open>null\<close>; and a valid version between a directory
  without \<^verbatim>\<open>manifest.json\<close> and one whose \<^verbatim>\<open>manifest.json\<close> is not JSON.
\<close>

definition fs_marked :: node where
  "fs_marked = under_root
     [(''ext1'', Dir
        [(''__uninstall__'', File None),
         (''1.0.0_r1'', version_dir ''ext1'' ''1.0.0'')])]"

definition fs_only_null :: node where
  "fs_only_null = under_root
     [(''ext1'', Dir [(''2.0.0_r1'', Dir [(''manifest.json'', File (Some JNull))])])]"

definition fs_unreadable :: node where
  "fs_unreadable = under_root
     [(''ext1'', Dir
        [(''3.0.0_r1'', Dir []),
         (''1.0.0_r1'', version_dir ''ext1'' ''1.0.0''),
         (''4.0.0_r1'', Dir [(''manifest.json'', File None)])])]"

section \<open>Paths, removal and sorting\<close>

lemma normalize_append: "normalize acc (xs @ ys) = normalize (normalize acc xs) ys"
  by (induction xs arbitrary: acc) auto

lemma normalize_prefix: "''..'' \<notin> set ss \<Longrightarrow> prefix acc (normalize acc ss)"
proof (induction ss arbitrary: acc)
  case Nil
  then show ?case by simp
next
  case (Cons s ss)
  have "prefix acc (acc @ [s])" by simp
  moreover have "prefix (acc @ [s]) (normalize (acc @ [s]) ss)" using Cons by simp
  ultimately have "prefix acc (normalize (acc @ [s]) ss)" using prefix_order.trans by blast
  then show ?case using Cons by auto
qed

lemma path_join_append: "path_join base (as @ bs) = path_join (path_join base as) bs"
  by (simp add: path_join_def normalize_append)

lemma path_join_manifest: "path_join base [''manifest.json''] = base @ [''manifest.json'']"
  by (simp add: path_join_def)

lemma path_join_flag: "path_join base [UNINSTALL_FLAG] = base @ [UNINSTALL_FLAG]"
  by (simp add: path_join_def UNINSTALL_FLAG_def)

lemma map_of_filter_neq: "map_of (filter (\<lambda>(k, n). k \<noteq> s) es) s = None"
  by (induction es) auto

lemma map_of_map_upd:
  "map_of (map (\<lambda>(k, n). if k = s then (k, f n) else (k, n)) es) s = map_option f (map_of es s)"
  by (induction es) auto

text \<open>Nothing is left strictly below a removed path, and nothing at it unless it is the top.\<close>

lemma lookup_rm_below: "lookup (rm p t) (p @ s # q) = None"
proof (induction p t rule: rm.induct)
  case (1 n)
  then show ?case by (cases n) auto
next
  case (2 s p c)
  then show ?case by simp
next
  case (3 s es)
  then show ?case by (simp add: map_of_filter_neq)
next
  case (4 s v va es)
  show ?case
  proof (cases "map_of es s")
    case None
    then show ?thesis by (simp add: map_of_map_upd)
  next
    case (Some d)
    then have "(s, d) \<in> set es" by (rule map_of_SomeD)
    with 4 Some show ?thesis by (simp add: map_of_map_upd)
  qed
qed

lemma lookup_rm_at: "p \<noteq> [] \<Longrightarrow> lookup (rm p t) (p @ q) = None"
proof (induction p t rule: rm.induct)
  case (1 n)
  then show ?case by simp
next
  case (2 s p c)
  then show ?case by simp
next
  case (3 s es)
  then show ?case by (simp add: map_of_filter_neq)
next
  case (4 s v va es)
  show ?case
  proof (cases "map_of es s")
    case None
    then show ?thesis by (simp add: map_of_map_upd)
  next
    case (Some d)
    then have "(s, d) \<in> set es" by (rule map_of_SomeD)
    with 4 Some show ?thesis by (simp add: map_of_map_upd)
  qed
qed

lemma lookup_rm_self: "p \<noteq> [] \<Longrightarrow> lookup (rm p t) p = None"
  using lookup_rm_at[of p t "[]"] by simp

lemma rm_idem: "rm p (rm p t) = rm p t"
proof (induction p t rule: rm.induct)
  case (1 n)
  then show ?case by (cases n) auto
next
  case (2 s p c)
  then show ?case by simp
next
  case (3 s es)
  then show ?case by simp
next
  case (4 s v va es)
  then show ?case by (auto simp: comp_def split: prod.splits)
qed

lemma set_insert_by: "set (insert_by cmp x ys) = insert x (set ys)"
  by (induction ys) auto

lemma set_array_sort: "set (array_sort cmp xs) = set xs"
  by (induction xs) (auto simp: array_sort_def set_insert_by)

lemma length_insert_by: "length (insert_by cmp x ys) = Suc (length ys)"
  by (induction ys) auto

lemma length_array_sort: "length (array_sort cmp xs) = length xs"
  by (induction xs) (auto simp: array_sort_def length_insert_by)

section \<open>The listing and the update\<close>

lemma filter_err_Inr:
  "filter_err f xs = Inr ys \<Longrightarrow>
     ys = filter (\<lambda>x. f x = Inr True) xs \<and> (\<forall>x \<in> set xs. \<exists>b. f x = Inr b)"
  by (induction xs arbitrary: ys) (auto split: sum.splits if_splits)

lemma filter_err_total:
  "(\<forall>x \<in> set xs. \<exists>b. f x = Inr b) \<Longrightarrow>
     filter_err f xs = Inr (filter (\<lambda>x. f x = Inr True) xs)"
  by (induction xs) (auto split: sum.splits)

text \<open>
  The objects of the listing have no property \<^verbatim>\<open>path\<close>: the removal of a superseded
  version is a call of \<^verbatim>\<open>fs.remove\<close> on \<^verbatim>\<open>undefined\<close>, which removes nothing.
\<close>

lemma remove_entry_noop: "remove_entry info st = st"
  by (simp add: remove_entry_def own_props_def path_arg_def fs_remove_def)

lemma foldl_remove_entry: "foldl (\<lambda>s info. remove_entry info s) st xs = st"
  by (induction xs) (simp_all add: remove_entry_noop)

lemma updateEntry_unflagged_state:
  "\<not> isSetForRemoval (tree st) (path_join root [e]) \<Longrightarrow> snd (updateEntry sv root e st) = st"
  by (auto simp: updateEntry_def Let_def foldl_remove_entry split: sum.splits list.splits)

lemma insert_by_sorted:
  assumes "sorted_wrt R ys"
    and "\<forall>y \<in> set ys. R x y \<or> R y x"
    and "\<forall>a \<in> A. \<forall>b \<in> A. \<forall>c \<in> A. R a b \<longrightarrow> R b c \<longrightarrow> R a c"
    and "insert x (set ys) \<subseteq> A"
  shows "sorted_wrt R (insert_by (\<lambda>a b. if R a b then - 1 else 1) x ys)"
  using assms
proof (induction ys)
  case Nil
  show ?case by simp
next
  case (Cons y ys)
  show ?case
  proof (cases "R x y")
    case True
    have "\<forall>z \<in> set ys. R x z"
    proof
      fix z assume z: "z \<in> set ys"
      with Cons.prems(1) have "R y z" by simp
      have "x \<in> A" "y \<in> A" "z \<in> A" using Cons.prems(4) z by auto
      with True \<open>R y z\<close> Cons.prems(3) show "R x z" by blast
    qed
    with True Cons.prems(1) show ?thesis by simp
  next
    case False
    with Cons.prems(2) have yx: "R y x" by auto
    have "sorted_wrt R ys" using Cons.prems(1) by simp
    moreover have "\<forall>y \<in> set ys. R x y \<or> R y x" using Cons.prems(2) by simp
    moreover have "insert x (set ys) \<subseteq> A" using Cons.prems(4) by auto
    ultimately have "sorted_wrt R (insert_by (\<lambda>a b. if R a b then - 1 else 1) x ys)"
      using Cons.IH Cons.prems(3) by blast
    moreover have "\<forall>z \<in> set (insert_by (\<lambda>a b. if R a b then - 1 else 1) x ys). R y z"
      using yx Cons.prems(1) by (simp add: set_insert_by)
    ultimately show ?thesis using False by simp
  qed
qed

lemma array_sort_nonempty: "xs \<noteq> [] \<Longrightarrow> \<exists>y ys. array_sort cmp xs = y # ys"
  using length_array_sort[of cmp xs] by (cases "array_sort cmp xs") auto

lemma array_sort_sorted:
  assumes "distinct (map version xs)"
    and "\<forall>a \<in> set xs. \<forall>b \<in> set xs. version a \<noteq> version b \<longrightarrow>
           gt sv (version a) (version b) \<or> gt sv (version b) (version a)"
    and "\<forall>a \<in> set xs. \<forall>b \<in> set xs. \<forall>c \<in> set xs.
           gt sv (version a) (version b) \<longrightarrow> gt sv (version b) (version c) \<longrightarrow>
           gt sv (version a) (version c)"
  shows "sorted_wrt (\<lambda>a b. gt sv (version a) (version b))
           (array_sort (\<lambda>a b. if gt sv (version a) (version b) then - 1 else 1) xs)"
  using assms
proof (induction xs)
  case Nil
  show ?case by (simp add: array_sort_def)
next
  case (Cons x xs)
  let ?R = "\<lambda>a b. gt sv (version a) (version b)"
  let ?cmp = "\<lambda>a b. if gt sv (version a) (version b) then - 1 else (1::int)"
  have "distinct (map version xs)" using Cons.prems(1) by simp
  moreover have "\<forall>a \<in> set xs. \<forall>b \<in> set xs. version a \<noteq> version b \<longrightarrow>
           gt sv (version a) (version b) \<or> gt sv (version b) (version a)"
    using Cons.prems(2) by (meson list.set_intros(2))
  moreover have "\<forall>a \<in> set xs. \<forall>b \<in> set xs. \<forall>c \<in> set xs.
           gt sv (version a) (version b) \<longrightarrow> gt sv (version b) (version c) \<longrightarrow>
           gt sv (version a) (version c)"
    using Cons.prems(3) by (meson list.set_intros(2))
  ultimately have ih: "sorted_wrt ?R (array_sort ?cmp xs)"
    using Cons.IH by blast
  have tot: "\<forall>y \<in> set (array_sort ?cmp xs). ?R x y \<or> ?R y x"
  proof
    fix y assume "y \<in> set (array_sort ?cmp xs)"
    then have y: "y \<in> set xs" by (simp add: set_array_sort)
    then have "version x \<noteq> version y" using Cons.prems(1) by auto
    with y Cons.prems(2) show "?R x y \<or> ?R y x" by (meson list.set_intros)
  qed
  have sub: "insert x (set (array_sort ?cmp xs)) \<subseteq> set (x # xs)"
    by (simp add: set_array_sort subset_insertI)
  have "sorted_wrt ?R (insert_by ?cmp x (array_sort ?cmp xs))"
    by (rule insert_by_sorted [OF ih tot Cons.prems(3) sub])
  then show ?case by (simp add: array_sort_def)
qed

lemma array_sort_hd_mem: "array_sort cmp xs = y # ys \<Longrightarrow> y \<in> set xs"
  using set_array_sort[of cmp xs] by auto

lemma updateEntry_flagged_eq:
  "isSetForRemoval (tree st) (path_join root [e]) \<Longrightarrow>
     updateEntry sv root e st = (Inr None, st\<lparr>pending := pending st @ [path_join root [e]]\<rparr>)"
  by (simp add: updateEntry_def Let_def fs_remove_def)

lemma tree_settle_snoc:
  "tree (settle (st\<lparr>pending := pending st @ [p]\<rparr>)) = rm p (tree (settle st))"
  by (simp add: settle_def)

lemma readdir_rm: "(case readdirSync (rm p t) p of Inr names \<Rightarrow> names | Inl ex \<Rightarrow> []) = []"
proof (cases p)
  case Nil
  then show ?thesis by (cases t) (simp_all add: readdirSync_def)
next
  case (Cons s q)
  then have "lookup (rm p t) p = None" by (simp add: lookup_rm_self)
  then show ?thesis by (simp add: readdirSync_def)
qed

lemma updateEntry_after_removal:
  "updateEntry sv root e \<lparr>tree = rm (path_join root [e]) t, pending = []\<rparr> =
     (Inr None, \<lparr>tree = rm (path_join root [e]) t, pending = []\<rparr>)"
proof -
  have "\<not> isSetForRemoval (rm (path_join root [e]) t) (path_join root [e])"
    by (simp add: isSetForRemoval_def existsSync_def path_join_flag lookup_rm_below)
  moreover have "listInstalledVersions sv root (rm (path_join root [e]) t) e = Inr []"
    by (simp add: listInstalledVersions_def readdir_rm List.map_filter_simps)
  ultimately show ?thesis by (simp add: updateEntry_def Let_def)
qed

lemma parse_entry_versionString:
  "parse_entry sv e d = Some info \<Longrightarrow> versionString info = d \<and> extensionId info = e"
  by (auto simp: parse_entry_def split: list.splits option.splits)

lemma listed_is_candidate:
  assumes "listInstalledVersions sv root fs e = Inr vs" and "info \<in> set vs"
  shows "is_candidate sv root fs e (versionString info)"
proof -
  let ?names = "case readdirSync fs (path_join root [e]) of Inr names \<Rightarrow> names | Inl ex \<Rightarrow> []"
  from assms(1) have "vs = filter (\<lambda>x. manifest_matches root fs x = Inr True)
      (List.map_filter (parse_entry sv e) ?names)"
    by (auto simp: listInstalledVersions_def Let_def dest: filter_err_Inr)
  with assms(2) have m: "manifest_matches root fs info = Inr True"
    and "info \<in> set (List.map_filter (parse_entry sv e) ?names)"
    by auto
  then obtain d where "parse_entry sv e d = Some info"
    by (auto simp: List.map_filter_def)
  then have "parse_entry sv e (versionString info) = Some info"
    using parse_entry_versionString by fastforce
  with m show ?thesis by (simp add: is_candidate_def)
qed

lemma manifest_matches_total:
  "readManifest root fs (extensionId info) (versionString info) \<noteq> JNull \<Longrightarrow>
     \<exists>b. manifest_matches root fs info = Inr b"
  by (cases "readManifest root fs (extensionId info) (versionString info)")
    (auto simp: manifest_matches_def Let_def)

lemma resolvePath_manifest:
  "path_join root [e, v, ''manifest.json''] = resolvePath root e v @ [''manifest.json'']"
  using path_join_append [of root "[e, v]" "[''manifest.json'']"]
  by (simp add: resolvePath_def path_join_manifest)

lemma manifest_matches_iff:
  "manifest_matches root fs info = Inr True \<longleftrightarrow>
     get_prop (readManifest root fs (extensionId info) (versionString info)) ''wavebox_extension_id'' =
       Inr (Some (JStr (extensionId info))) \<and>
     get_prop (readManifest root fs (extensionId info) (versionString info)) ''version'' =
       Inr (Some (JStr (version info)))"
  by (auto simp: manifest_matches_def Let_def split: sum.splits)

lemma put_missing_parent: "lookup t p = None \<Longrightarrow> \<exists>ex. put (p @ [s]) new t = Inl ex"
proof (induction p arbitrary: t)
  case Nil
  then show ?case by simp
next
  case (Cons a q)
  show ?case
  proof (cases t)
    case (File c)
    then show ?thesis by simp
  next
    case (Dir es)
    obtain b r where qs: "q @ [s] = b # r" by (cases q) auto
    show ?thesis
    proof (cases "map_of es a")
      case None
      with Dir qs show ?thesis by simp
    next
      case (Some d)
      with Cons.prems Dir have "lookup d q = None" by simp
      then obtain ex where "put (q @ [s]) new d = Inl ex" using Cons.IH by blast
      with Dir Some qs show ?thesis by auto
    qed
  qed
qed

lemma listInstalledVersions_total:
  assumes "\<forall>info \<in> set (List.map_filter (parse_entry sv e)
             (case readdirSync fs (path_join root [e]) of Inr names \<Rightarrow> names | Inl ex \<Rightarrow> [])).
             readManifest root fs (extensionId info) (versionString info) \<noteq> JNull"
  shows "listInstalledVersions sv root fs e =
     Inr (filter (\<lambda>info. manifest_matches root fs info = Inr True)
       (List.map_filter (parse_entry sv e)
          (case readdirSync fs (path_join root [e]) of Inr names \<Rightarrow> names | Inl ex \<Rightarrow> [])))"
  unfolding listInstalledVersions_def Let_def
  by (rule filter_err_total) (use assms manifest_matches_total in blast)

text \<open>
  With distinct versions that \<^verbatim>\<open>semver.gt\<close> orders, the value returned in the upgrade
  branch is the candidate with the greatest version.
\<close>

lemma updateEntry_returns_latest:
  assumes "\<not> isSetForRemoval (tree st) (path_join root [e])"
    and "listInstalledVersions sv root (tree st) e = Inr vs"
    and "length vs > 1"
    and "distinct (map version vs)"
    and "\<forall>a \<in> set vs. \<forall>b \<in> set vs. version a \<noteq> version b \<longrightarrow>
           gt sv (version a) (version b) \<or> gt sv (version b) (version a)"
    and "\<forall>a \<in> set vs. \<forall>b \<in> set vs. \<forall>c \<in> set vs.
           gt sv (version a) (version b) \<longrightarrow> gt sv (version b) (version c) \<longrightarrow>
           gt sv (version a) (version c)"
  shows "\<exists>latest. fst (updateEntry sv root e st) = Inr (Some latest) \<and> latest \<in> set vs \<and>
           (\<forall>x \<in> set vs. x \<noteq> latest \<longrightarrow> gt sv (version latest) (version x))"
proof -
  let ?cmp = "\<lambda>a b. if gt sv (version a) (version b) then - 1 else (1::int)"
  from assms(3) have "vs \<noteq> []" by auto
  then obtain latest remove where s: "array_sort ?cmp vs = latest # remove"
    using array_sort_nonempty by blast
  have "sorted_wrt (\<lambda>a b. gt sv (version a) (version b)) (latest # remove)"
    using array_sort_sorted [OF assms(4,5,6)] s by simp
  then have dom: "\<forall>x \<in> set remove. gt sv (version latest) (version x)" by simp
  have mem: "set vs = insert latest (set remove)"
    using set_array_sort [of ?cmp vs] s by simp
  have "fst (updateEntry sv root e st) = Inr (Some latest)"
    using assms(1,2,3) s by (simp add: updateEntry_def Let_def)
  with dom mem show ?thesis by auto
qed

lemma matching_manifest_read:
  "manifest_matches root fs info = Inr True \<Longrightarrow>
     \<exists>m. readJsonSync fs
       (resolvePath root (extensionId info) (versionString info) @ [''manifest.json'']) = Inr m"
  by (cases "readJsonSync fs
       (resolvePath root (extensionId info) (versionString info) @ [''manifest.json''])")
    (auto simp: manifest_matches_def readManifest_def resolvePath_manifest Let_def)

lemma listed_manifest_read:
  assumes "listInstalledVersions sv root fs e = Inr vs" and "info \<in> set vs"
  shows "\<exists>m. readJsonSync fs (resolvePath root e (versionString info) @ [''manifest.json'']) = Inr m"
proof -
  from assms have "is_candidate sv root fs e (versionString info)"
    by (rule listed_is_candidate)
  then obtain info' where p: "parse_entry sv e (versionString info) = Some info'"
    and m: "manifest_matches root fs info' = Inr True"
    by (auto simp: is_candidate_def split: option.splits)
  from p have "versionString info' = versionString info" "extensionId info' = e"
    using parse_entry_versionString by blast+
  with matching_manifest_read [OF m] show ?thesis by simp
qed

text \<open>
  A listing of exactly one entry is returned as it is, and nothing is changed; a value
  is returned exactly when there is no sentinel and the listing has an entry.
\<close>

lemma updateEntry_single_listing:
  assumes "\<not> isSetForRemoval (tree st) (path_join root [e])"
    and "listInstalledVersions sv root (tree st) e = Inr [info]"
  shows "updateEntry sv root e st = (Inr (Some info), st)"
  using assms by (simp add: updateEntry_def Let_def)

lemma updateEntry_undefined_or_info:
  "(isSetForRemoval (tree st) (path_join root [e]) \<longrightarrow> fst (updateEntry sv root e st) = Inr None) \<and>
   (\<not> isSetForRemoval (tree st) (path_join root [e]) \<and>
      listInstalledVersions sv root (tree st) e = Inr [] \<longrightarrow>
        fst (updateEntry sv root e st) = Inr None) \<and>
   (\<forall>info. fst (updateEntry sv root e st) = Inr (Some info) \<longrightarrow>
      \<not> isSetForRemoval (tree st) (path_join root [e]) \<and>
      (\<exists>vs. listInstalledVersions sv root (tree st) e = Inr vs \<and> vs \<noteq> [] \<and> info \<in> set vs)) \<and>
   (\<forall>vs. \<not> isSetForRemoval (tree st) (path_join root [e]) \<and>
      listInstalledVersions sv root (tree st) e = Inr vs \<and> vs \<noteq> [] \<longrightarrow>
        (\<exists>info. fst (updateEntry sv root e st) = Inr (Some info)))"
proof (intro conjI allI impI)
  assume "isSetForRemoval (tree st) (path_join root [e])"
  then show "fst (updateEntry sv root e st) = Inr None"
    by (simp add: updateEntry_flagged_eq)
next
  assume "\<not> isSetForRemoval (tree st) (path_join root [e]) \<and>
      listInstalledVersions sv root (tree st) e = Inr []"
  then show "fst (updateEntry sv root e st) = Inr None"
    by (simp add: updateEntry_def Let_def)
next
  fix info
  assume r: "fst (updateEntry sv root e st) = Inr (Some info)"
  then show "\<not> isSetForRemoval (tree st) (path_join root [e])"
    by (auto simp: updateEntry_flagged_eq)
  then show "\<exists>vs. listInstalledVersions sv root (tree st) e = Inr vs \<and> vs \<noteq> [] \<and> info \<in> set vs"
    using r
    by (auto simp: updateEntry_def Let_def split: sum.splits list.splits if_splits
        dest: array_sort_hd_mem)
next
  fix vs
  assume a: "\<not> isSetForRemoval (tree st) (path_join root [e]) \<and>
      listInstalledVersions sv root (tree st) e = Inr vs \<and> vs \<noteq> []"
  show "\<exists>info. fst (updateEntry sv root e st) = Inr (Some info)"
  proof (cases "length vs > 1")
    case True
    obtain y ys where "array_sort (\<lambda>a b. if gt sv (version a) (version b) then - 1 else 1) vs = y # ys"
      using a array_sort_nonempty by blast
    with a True show ?thesis by (simp add: updateEntry_def Let_def)
  next
    case False
    with a have "length vs = 1" by (cases vs) auto
    with a show ?thesis by (simp add: updateEntry_def Let_def)
  qed
qed

lemma pass_idempotent:
  "reconcile_pass sv root e (reconcile_pass sv root e t) = reconcile_pass sv root e t \<and>
   reconcile_outcome sv root e (reconcile_pass sv root e t) = reconcile_outcome sv root e t \<and>
   tree (settle (snd (updateEntry sv root e (snd (updateEntry sv root e \<lparr>tree = t, pending = []\<rparr>))))) =
     reconcile_pass sv root e t \<and>
   (isSetForRemoval t (path_join root [e]) \<longrightarrow>
      reconcile_outcome sv root e t = Inr None \<and>
      reconcile_pass sv root e t = rm (path_join root [e]) t \<and>
      (path_join root [e] \<noteq> [] \<longrightarrow>
         \<not> existsSync (reconcile_pass sv root e t) (path_join root [e])))"
proof (cases "isSetForRemoval t (path_join root [e])")
  case True
  then have first: "updateEntry sv root e \<lparr>tree = t, pending = []\<rparr> =
      (Inr None, \<lparr>tree = t, pending = [path_join root [e]]\<rparr>)"
    by (simp add: updateEntry_flagged_eq)
  have again: "updateEntry sv root e \<lparr>tree = t, pending = [path_join root [e]]\<rparr> =
      (Inr None, \<lparr>tree = t, pending = [path_join root [e], path_join root [e]]\<rparr>)"
    using True by (simp add: updateEntry_flagged_eq)
  have pass: "reconcile_pass sv root e t = rm (path_join root [e]) t"
    by (simp add: reconcile_pass_def first settle_def)
  have out: "reconcile_outcome sv root e t = Inr None"
    by (simp add: reconcile_outcome_def first)
  have gone: "path_join root [e] \<noteq> [] \<longrightarrow>
      \<not> existsSync (reconcile_pass sv root e t) (path_join root [e])"
    by (simp add: pass existsSync_def lookup_rm_self)
  have idem: "reconcile_pass sv root e (reconcile_pass sv root e t) = reconcile_pass sv root e t \<and>
      reconcile_outcome sv root e (reconcile_pass sv root e t) = reconcile_outcome sv root e t \<and>
      tree (settle (snd (updateEntry sv root e (snd (updateEntry sv root e \<lparr>tree = t, pending = []\<rparr>))))) =
        reconcile_pass sv root e t"
    by (simp add: pass reconcile_pass_def reconcile_outcome_def updateEntry_after_removal
        first again settle_def rm_idem)
  from idem out pass gone show ?thesis by blast
next
  case False
  then have same: "snd (updateEntry sv root e \<lparr>tree = t, pending = []\<rparr>) = \<lparr>tree = t, pending = []\<rparr>"
    by (simp add: updateEntry_unflagged_state)
  have pass: "reconcile_pass sv root e t = t"
    by (simp add: reconcile_pass_def same settle_def)
  show ?thesis
    using False by (simp add: pass reconcile_pass_def same settle_def)
qed

section \<open>Claims\<close>

text \<open>
  C1. Two valid version directories with distinct versions and no removal sentinel:
  \<^verbatim>\<open>ext1\<close> with \<^verbatim>\<open>1.0.0_r1\<close> and \<^verbatim>\<open>1.1.0_r1\<close>. \<^verbatim>\<open>updateEntry\<close> returns the candidate
  \<^verbatim>\<open>1.1.0\<close>, and starts no removal: the state is unchanged and both version directories
  are still listed once everything started has run. The superseded directory is not
  deleted, since \<^verbatim>\<open>info.path\<close> is \<^verbatim>\<open>undefined\<close> (\<open>remove_entry_noop\<close>).
\<close>

theorem upgrade_removes_nothing:
  "updateEntry plain_semver install_root ''ext1'' \<lparr>tree = fs_two, pending = []\<rparr> =
     (Inr (Some (info_of ''ext1'' ''1.1.0'' ''r1'')), \<lparr>tree = fs_two, pending = []\<rparr>) \<and>
   readdirSync
     (tree (settle (snd (updateEntry plain_semver install_root ''ext1'' \<lparr>tree = fs_two, pending = []\<rparr>))))
     (path_join install_root [''ext1'']) = Inr [''1.0.0_r1'', ''1.1.0_r1'']"
  by code_simp

text \<open>
  C2 (amended). When \<^verbatim>\<open>manifest.json\<close> of the version can be read, no fault of a read
  leaves \<^verbatim>\<open>loadTranslatedManifest\<close>: the result is \<^verbatim>\<open>translatedManifest(messages, manifest)\<close>
  with the bundle of the requested locale when that can be read; else the bundle of the
  manifest's \<^verbatim>\<open>default_locale\<close> (\<^verbatim>\<open>en\<close> when it declares none), sanitized, when that can
  be read; else the empty bundle.
\<close>

theorem loadTranslatedManifest_fallbacks:
  assumes "readJsonSync fs (resolvePath root e v @ [''manifest.json'']) = Inr manifest"
  shows
   "(\<forall>m. readJsonSync fs (path_join (resolvePath root e v) [''_locales'', locale, ''messages.json'']) = Inr m \<longrightarrow>
       loadTranslatedManifest sanitize translate root fs e v locale = translate m manifest) \<and>
    (\<forall>ex d dl m.
       readJsonSync fs (path_join (resolvePath root e v) [''_locales'', locale, ''messages.json'']) = Inl ex \<and>
       get_prop manifest ''default_locale'' = Inr d \<and>
       sanitize (or_else d (JStr ''en'')) = Inr dl \<and>
       readJsonSync fs (path_join (resolvePath root e v) [''_locales'', dl, ''messages.json'']) = Inr m \<longrightarrow>
       loadTranslatedManifest sanitize translate root fs e v locale = translate m manifest) \<and>
    (\<forall>ex.
       readJsonSync fs (path_join (resolvePath root e v) [''_locales'', locale, ''messages.json'']) = Inl ex \<and>
       (\<forall>d dl. get_prop manifest ''default_locale'' = Inr d \<and>
                sanitize (or_else d (JStr ''en'')) = Inr dl \<longrightarrow>
                (\<exists>ex2. readJsonSync fs
                   (path_join (resolvePath root e v) [''_locales'', dl, ''messages.json'']) = Inl ex2)) \<longrightarrow>
       loadTranslatedManifest sanitize translate root fs e v locale = translate (JObj []) manifest) \<and>
    (\<exists>messages. loadTranslatedManifest sanitize translate root fs e v locale = translate messages manifest) \<and>
    or_else None (JStr ''en'') = JStr ''en''"
  using assms
  by (auto simp: loadTranslatedManifest_def Let_def resolvePath_def path_join_manifest or_else_def
      split: sum.splits)

text \<open>
  C2, witness: the requested locale \<^verbatim>\<open>de\<close> has no bundle, the manifest declares
  \<^verbatim>\<open>fr\<close>, and the bundle of \<^verbatim>\<open>fr\<close> is used; a version without any bundle gets the
  empty one.
\<close>

theorem loadTranslatedManifest_fallbacks_witness:
  "readJsonSync fs_locales (resolvePath install_root ''ext1'' ''1.0.0_r1'' @ [''manifest.json'']) =
     Inr (JObj [(''wavebox_extension_id'', JStr ''ext1''), (''version'', JStr ''1.0.0''),
                (''default_locale'', JStr ''fr'')]) \<and>
   readJsonSync fs_locales
     (path_join (resolvePath install_root ''ext1'' ''1.0.0_r1'') [''_locales'', ''de'', ''messages.json'']) =
     Inl ENOENT \<and>
   loadTranslatedManifest sanitize_string pair_translation install_root fs_locales
     ''ext1'' ''1.0.0_r1'' ''de'' =
     Inr (JObj [(''hello'', JStr ''bonjour'')],
          JObj [(''wavebox_extension_id'', JStr ''ext1''), (''version'', JStr ''1.0.0''),
                (''default_locale'', JStr ''fr'')]) \<and>
   loadTranslatedManifest sanitize_string pair_translation install_root fs_locales
     ''ext1'' ''1.1.0_r1'' ''de'' = Inr (JObj [], manifest_json ''ext1'' ''1.1.0'')"
proof -
  let ?manifest = "JObj [(''wavebox_extension_id'', JStr ''ext1''), (''version'', JStr ''1.0.0''),
                (''default_locale'', JStr ''fr'')]"
  let ?rootPath = "resolvePath install_root ''ext1'' ''1.0.0_r1''"
  have man: "readJsonSync fs_locales (?rootPath @ [''manifest.json'']) = Inr ?manifest"
    by code_simp
  have de: "readJsonSync fs_locales (path_join ?rootPath [''_locales'', ''de'', ''messages.json'']) =
      Inl ENOENT"
    by code_simp
  have d: "get_prop ?manifest ''default_locale'' = Inr (Some (JStr ''fr''))"
    by simp
  have s: "sanitize_string (or_else (Some (JStr ''fr'')) (JStr ''en'')) = Inr ''fr''"
    by (simp add: sanitize_string_def or_else_def)
  have fr: "readJsonSync fs_locales (path_join ?rootPath [''_locales'', ''fr'', ''messages.json'']) =
      Inr (JObj [(''hello'', JStr ''bonjour'')])"
    by code_simp
  have "loadTranslatedManifest sanitize_string pair_translation install_root fs_locales
     ''ext1'' ''1.0.0_r1'' ''de'' = pair_translation (JObj [(''hello'', JStr ''bonjour'')]) ?manifest"
    using loadTranslatedManifest_fallbacks [OF man, of "''de''" sanitize_string pair_translation,
        THEN conjunct2, THEN conjunct1] de d s fr
    by blast
  then have res: "loadTranslatedManifest sanitize_string pair_translation install_root fs_locales
     ''ext1'' ''1.0.0_r1'' ''de'' = Inr (JObj [(''hello'', JStr ''bonjour'')], ?manifest)"
    by (simp add: pair_translation_def)
  let ?rootPath' = "resolvePath install_root ''ext1'' ''1.1.0_r1''"
  have man': "readJsonSync fs_locales (?rootPath' @ [''manifest.json'']) =
      Inr (manifest_json ''ext1'' ''1.1.0'')"
    by code_simp
  have de': "readJsonSync fs_locales (path_join ?rootPath' [''_locales'', ''de'', ''messages.json'']) =
      Inl ENOENT"
    by code_simp
  have en': "readJsonSync fs_locales (path_join ?rootPath' [''_locales'', ''en'', ''messages.json'']) =
      Inl ENOENT"
    by code_simp
  have none: "\<forall>d dl. get_prop (manifest_json ''ext1'' ''1.1.0'') ''default_locale'' = Inr d \<and>
      sanitize_string (or_else d (JStr ''en'')) = Inr dl \<longrightarrow>
      (\<exists>ex2. readJsonSync fs_locales
         (path_join ?rootPath' [''_locales'', dl, ''messages.json'']) = Inl ex2)"
    using en' by (auto simp: manifest_json_def or_else_def sanitize_string_def)
  have "loadTranslatedManifest sanitize_string pair_translation install_root fs_locales
     ''ext1'' ''1.1.0_r1'' ''de'' = pair_translation (JObj []) (manifest_json ''ext1'' ''1.1.0'')"
    using loadTranslatedManifest_fallbacks [OF man', of "''de''" sanitize_string pair_translation,
        THEN conjunct2, THEN conjunct2, THEN conjunct1] de' none
    by blast
  then have res': "loadTranslatedManifest sanitize_string pair_translation install_root fs_locales
     ''ext1'' ''1.1.0_r1'' ''de'' = Inr (JObj [], manifest_json ''ext1'' ''1.1.0'')"
    by (simp add: pair_translation_def)
  show ?thesis
    by (intro conjI) (rule man de res res')+
qed

text \<open>
  C2, counterexample: the read of \<^verbatim>\<open>manifest.json\<close> is outside every \<^verbatim>\<open>try\<close>; for a
  version directory that does not exist its fault reaches the caller.
\<close>

theorem loadTranslatedManifest_faults:
  "loadTranslatedManifest sanitize_string pair_translation install_root fs_locales
     ''ext1'' ''1.2.0_r1'' ''fr'' = Inl ENOENT"
  by code_simp

text \<open>
  C3 (amended). \<^verbatim>\<open>readManifest\<close> reads \<^verbatim>\<open>manifest.json\<close> at the path of \<^verbatim>\<open>resolvePath\<close>,
  which is \<^verbatim>\<open>path.join\<close> of the install root and the two arguments, normalised. When
  neither argument has a segment \<^verbatim>\<open>..\<close> the path stays under the install root, also for
  an argument that starts with \<^verbatim>\<open>/\<close>. No argument is rejected.
\<close>

theorem resolvePath_under_root:
  "readManifest root fs e v =
     (case readJsonSync fs (resolvePath root e v @ [''manifest.json'']) of
        Inr manifest \<Rightarrow> manifest | Inl ex \<Rightarrow> JObj []) \<and>
   (''..'' \<notin> set (split_on CHR ''/'' e) \<and> ''..'' \<notin> set (split_on CHR ''/'' v) \<longrightarrow>
      prefix root (resolvePath root e v))"
  by (simp add: readManifest_def resolvePath_manifest)
    (simp add: resolvePath_def path_join_def normalize_prefix)

text \<open>
  C3, witness: an argument that looks absolute, and one with \<^verbatim>\<open>.\<close> and empty segments.
\<close>

theorem resolvePath_under_root_witness:
  "''..'' \<notin> set (split_on CHR ''/'' ''/etc'') \<and> ''..'' \<notin> set (split_on CHR ''/'' ''./1.0.0_r1//'') \<and>
   resolvePath install_root ''/etc'' ''./1.0.0_r1//'' = [''data'', ''extensions'', ''etc'', ''1.0.0_r1''] \<and>
   prefix install_root (resolvePath install_root ''/etc'' ''./1.0.0_r1//'')"
proof -
  have h1: "''..'' \<notin> set (split_on CHR ''/'' ''/etc'')" by simp
  have h2: "''..'' \<notin> set (split_on CHR ''/'' ''./1.0.0_r1//'')" by simp
  have r: "resolvePath install_root ''/etc'' ''./1.0.0_r1//'' = [''data'', ''extensions'', ''etc'', ''1.0.0_r1'']"
    by code_simp
  have "prefix install_root (resolvePath install_root ''/etc'' ''./1.0.0_r1//'')"
    using resolvePath_under_root [of install_root fs_empty "''/etc''" "''./1.0.0_r1//''", THEN conjunct2] h1 h2
    by blast
  then show ?thesis using h1 h2 r by blast
qed

text \<open>
  C3, counterexample: an extension id with a segment \<^verbatim>\<open>..\<close> is not rejected; the path
  leaves the install root and \<^verbatim>\<open>readManifest\<close> returns the manifest it finds there.
\<close>

theorem resolvePath_escapes_root:
  "resolvePath install_root ''../outside'' ''1.0.0'' = [''data'', ''outside'', ''1.0.0''] \<and>
   \<not> prefix install_root (resolvePath install_root ''../outside'' ''1.0.0'') \<and>
   readManifest install_root fs_outside ''../outside'' ''1.0.0'' = manifest_json ''other'' ''9.9.9''"
proof -
  have r: "resolvePath install_root ''../outside'' ''1.0.0'' = [''data'', ''outside'', ''1.0.0'']"
    by code_simp
  have m: "readManifest install_root fs_outside ''../outside'' ''1.0.0'' = manifest_json ''other'' ''9.9.9''"
    by code_simp
  show ?thesis by (simp add: r m) (simp add: install_root_def)
qed

text \<open>
  C4 (amended). When the removal sentinel is in the extension root, \<^verbatim>\<open>updateEntry\<close>
  returns \<^verbatim>\<open>undefined\<close> and its only effect is to start the recursive removal of the
  extension root; nothing of the version directories enters the result, so the listing
  is not consulted, whatever it would return. Once the started removals have run, the
  extension root (when it is not the top of the file system) does not exist.
\<close>

theorem updateEntry_flagged:
  assumes "isSetForRemoval (tree st) (path_join root [e])"
  shows "updateEntry sv root e st = (Inr None, st\<lparr>pending := pending st @ [path_join root [e]]\<rparr>) \<and>
    (path_join root [e] \<noteq> [] \<longrightarrow>
       \<not> existsSync (tree (settle (snd (updateEntry sv root e st)))) (path_join root [e]))"
  using assms
  by (simp add: updateEntry_flagged_eq tree_settle_snoc existsSync_def lookup_rm_self)

text \<open>
  C4, witness: an extension marked for removal whose listing would throw.
\<close>

theorem updateEntry_flagged_witness:
  "isSetForRemoval fs_flagged (path_join install_root [''ext1'']) \<and>
   listInstalledVersions plain_semver install_root fs_flagged ''ext1'' = Inl TypeError \<and>
   updateEntry plain_semver install_root ''ext1'' \<lparr>tree = fs_flagged, pending = []\<rparr> =
     (Inr None, \<lparr>tree = fs_flagged, pending = [[''data'', ''extensions'', ''ext1'']]\<rparr>) \<and>
   \<not> existsSync
       (tree (settle (snd (updateEntry plain_semver install_root ''ext1''
          \<lparr>tree = fs_flagged, pending = []\<rparr>))))
       [''data'', ''extensions'', ''ext1'']"
proof -
  have flag: "isSetForRemoval fs_flagged (path_join install_root [''ext1''])"
    by code_simp
  have listing: "listInstalledVersions plain_semver install_root fs_flagged ''ext1'' = Inl TypeError"
    by code_simp
  have p: "path_join install_root [''ext1''] = [''data'', ''extensions'', ''ext1'']"
    by code_simp
  have flag': "isSetForRemoval (tree \<lparr>tree = fs_flagged, pending = []\<rparr>)
      (path_join install_root [''ext1''])"
    using flag by simp
  note th = updateEntry_flagged [OF flag', of plain_semver]
  have ret: "updateEntry plain_semver install_root ''ext1'' \<lparr>tree = fs_flagged, pending = []\<rparr> =
     (Inr None, \<lparr>tree = fs_flagged, pending = [[''data'', ''extensions'', ''ext1'']]\<rparr>)"
    using th [THEN conjunct1] p by simp
  have gone: "\<not> existsSync
       (tree (settle (snd (updateEntry plain_semver install_root ''ext1''
          \<lparr>tree = fs_flagged, pending = []\<rparr>))))
       [''data'', ''extensions'', ''ext1'']"
    using th [THEN conjunct2] p by simp
  show ?thesis
    by (intro conjI) (rule flag listing ret gone)+
qed

text \<open>
  C4, counterexample: \<^verbatim>\<open>fs.remove\<close> is not awaited; when \<^verbatim>\<open>updateEntry\<close> returns, the
  extension root is still there.
\<close>

theorem updateEntry_returns_before_removal:
  "fst (updateEntry plain_semver install_root ''ext2'' \<lparr>tree = fs_flagged, pending = []\<rparr>) = Inr None \<and>
   existsSync (tree (snd (updateEntry plain_semver install_root ''ext2'' \<lparr>tree = fs_flagged, pending = []\<rparr>)))
     (path_join install_root [''ext2''])"
  by code_simp

text \<open>
  C5. A version directory whose \<^verbatim>\<open>manifest.json\<close> holds \<^verbatim>\<open>null\<close>: \<^verbatim>\<open>readManifest\<close>
  returns \<^verbatim>\<open>null\<close>, and the property read on it in the filter throws out of
  \<^verbatim>\<open>listInstalledVersions\<close>, which returns no listing at all, not even the valid
  \<^verbatim>\<open>1.0.0_r1\<close>. Where no candidate's manifest is \<^verbatim>\<open>null\<close>, the listing is the one
  claimed (\<open>listInstalledVersions_total\<close>, \<open>manifest_matches_iff\<close>).
\<close>

theorem listing_faults_on_null_manifest:
  "readManifest install_root fs_null ''ext1'' ''2.0.0_r1'' = JNull \<and>
   listInstalledVersions plain_semver install_root fs_null ''ext1'' = Inl TypeError"
  by code_simp

text \<open>
  C6 (amended). \<^verbatim>\<open>listInstalledExtensionIds\<close>, \<^verbatim>\<open>readManifest\<close> and \<^verbatim>\<open>isSetForRemoval\<close>
  return a value on every input, and their fallback (the empty list, the empty document,
  false) where the read fails. \<^verbatim>\<open>listInstalledVersions\<close> returns the empty sequence when
  the extension root cannot be listed; whenever it returns a sequence, the manifest of
  every entry of it was read, so that a candidate whose manifest is missing, unreadable
  or malformed is not in it; and whenever no candidate's manifest is \<^verbatim>\<open>null\<close> it returns
  the sequence of the candidates whose manifest matches. \<^verbatim>\<open>setForRemoval\<close> passes the
  fault of its write on (here: the extension root is missing), and
  \<^verbatim>\<open>loadTranslatedManifest\<close> passes on the fault of reading \<^verbatim>\<open>manifest.json\<close>.
\<close>

theorem read_side_fallbacks:
  "(\<forall>ex. readdirSync fs root = Inl ex \<longrightarrow> listInstalledExtensionIds root fs = []) \<and>
   (\<forall>ex. readJsonSync fs (resolvePath root e v @ [''manifest.json'']) = Inl ex \<longrightarrow>
      readManifest root fs e v = JObj []) \<and>
   (\<forall>ex. readdirSync fs (path_join root [e]) = Inl ex \<longrightarrow>
      listInstalledVersions sv root fs e = Inr []) \<and>
   (\<forall>vs info. listInstalledVersions sv root fs e = Inr vs \<and> info \<in> set vs \<longrightarrow>
      (\<exists>m. readJsonSync fs (resolvePath root e (versionString info) @ [''manifest.json'']) = Inr m)) \<and>
   ((\<forall>info \<in> set (List.map_filter (parse_entry sv e)
             (case readdirSync fs (path_join root [e]) of Inr names \<Rightarrow> names | Inl ex \<Rightarrow> [])).
        readManifest root fs (extensionId info) (versionString info) \<noteq> JNull) \<longrightarrow>
      listInstalledVersions sv root fs e =
        Inr (filter (\<lambda>info. manifest_matches root fs info = Inr True)
          (List.map_filter (parse_entry sv e)
             (case readdirSync fs (path_join root [e]) of Inr names \<Rightarrow> names | Inl ex \<Rightarrow> [])))) \<and>
   (lookup fs (rootPath @ [UNINSTALL_FLAG]) = None \<longrightarrow> \<not> isSetForRemoval fs rootPath) \<and>
   (lookup (tree st) (path_join root [e]) = None \<longrightarrow> (\<exists>ex. setForRemoval root e st = Inl ex)) \<and>
   (\<forall>ex. readJsonSync fs (resolvePath root e v @ [''manifest.json'']) = Inl ex \<longrightarrow>
      loadTranslatedManifest sanitize translate root fs e v locale = Inl ex)"
proof (intro conjI allI impI)
  fix ex assume "readdirSync fs root = Inl ex"
  then show "listInstalledExtensionIds root fs = []"
    by (simp add: listInstalledExtensionIds_def)
next
  fix ex assume "readJsonSync fs (resolvePath root e v @ [''manifest.json'']) = Inl ex"
  then show "readManifest root fs e v = JObj []"
    by (simp add: readManifest_def resolvePath_manifest)
next
  fix ex assume "readdirSync fs (path_join root [e]) = Inl ex"
  then show "listInstalledVersions sv root fs e = Inr []"
    by (simp add: listInstalledVersions_def List.map_filter_simps)
next
  fix vs info
  assume "listInstalledVersions sv root fs e = Inr vs \<and> info \<in> set vs"
  then show "\<exists>m. readJsonSync fs
      (resolvePath root e (versionString info) @ [''manifest.json'']) = Inr m"
    using listed_manifest_read by blast
next
  assume "\<forall>info \<in> set (List.map_filter (parse_entry sv e)
             (case readdirSync fs (path_join root [e]) of Inr names \<Rightarrow> names | Inl ex \<Rightarrow> [])).
        readManifest root fs (extensionId info) (versionString info) \<noteq> JNull"
  then show "listInstalledVersions sv root fs e =
        Inr (filter (\<lambda>info. manifest_matches root fs info = Inr True)
          (List.map_filter (parse_entry sv e)
             (case readdirSync fs (path_join root [e]) of Inr names \<Rightarrow> names | Inl ex \<Rightarrow> [])))"
    by (rule listInstalledVersions_total)
next
  assume "lookup fs (rootPath @ [UNINSTALL_FLAG]) = None"
  then show "\<not> isSetForRemoval fs rootPath"
    by (simp add: isSetForRemoval_def existsSync_def path_join_flag)
next
  assume "lookup (tree st) (path_join root [e]) = None"
  then obtain ex where "put (path_join root [e] @ [UNINSTALL_FLAG]) (File None) (tree st) = Inl ex"
    using put_missing_parent by blast
  moreover have "path_join root [e, UNINSTALL_FLAG] = path_join root [e] @ [UNINSTALL_FLAG]"
    using path_join_append [of root "[e]" "[UNINSTALL_FLAG]"] by (simp add: path_join_flag)
  ultimately show "\<exists>ex. setForRemoval root e st = Inl ex"
    by (simp add: setForRemoval_def writeFileSync_def)
next
  fix ex assume "readJsonSync fs (resolvePath root e v @ [''manifest.json'']) = Inl ex"
  then show "loadTranslatedManifest sanitize translate root fs e v locale = Inl ex"
    by (simp add: loadTranslatedManifest_def Let_def resolvePath_def path_join_manifest)
qed

text \<open>
  C6, witness: an install root that does not exist; and a listing that drops a directory
  without \<^verbatim>\<open>manifest.json\<close> and one whose \<^verbatim>\<open>manifest.json\<close> is not JSON.
\<close>

theorem read_side_fallbacks_witness:
  "readdirSync fs_empty [''nowhere''] = Inl ENOENT \<and>
   listInstalledExtensionIds [''nowhere''] fs_empty = [] \<and>
   readManifest [''nowhere''] fs_empty ''ext1'' ''1.0.0_r1'' = JObj [] \<and>
   listInstalledVersions plain_semver [''nowhere''] fs_empty ''ext1'' = Inr [] \<and>
   \<not> isSetForRemoval fs_empty [''nowhere'', ''ext1''] \<and>
   (\<exists>ex. setForRemoval [''nowhere''] ''ext1'' \<lparr>tree = fs_empty, pending = []\<rparr> = Inl ex) \<and>
   loadTranslatedManifest sanitize_string pair_translation [''nowhere''] fs_empty
     ''ext1'' ''1.0.0_r1'' ''en'' = Inl ENOENT \<and>
   readdirSync fs_unreadable (path_join install_root [''ext1'']) =
     Inr [''3.0.0_r1'', ''1.0.0_r1'', ''4.0.0_r1''] \<and>
   readJsonSync fs_unreadable (resolvePath install_root ''ext1'' ''3.0.0_r1'' @ [''manifest.json'']) =
     Inl ENOENT \<and>
   readJsonSync fs_unreadable (resolvePath install_root ''ext1'' ''4.0.0_r1'' @ [''manifest.json'']) =
     Inl SyntaxError \<and>
   listInstalledVersions plain_semver install_root fs_unreadable ''ext1'' =
     Inr [info_of ''ext1'' ''1.0.0'' ''r1''] \<and>
   (\<exists>m. readJsonSync fs_unreadable
      (resolvePath install_root ''ext1'' ''1.0.0_r1'' @ [''manifest.json'']) = Inr m)"
proof -
  let ?st = "\<lparr>tree = fs_empty, pending = []\<rparr>"
  note th = read_side_fallbacks [of fs_empty "[''nowhere'']" "''ext1''" "''1.0.0_r1''" plain_semver
      "[''nowhere'', ''ext1'']" ?st sanitize_string pair_translation "''en''"]
  note th' = read_side_fallbacks [of fs_unreadable install_root "''ext1''" "''1.0.0_r1''" plain_semver
      "[]" ?st sanitize_string pair_translation "''en''"]
  have ids: "readdirSync fs_empty [''nowhere''] = Inl ENOENT"
    by code_simp
  have man: "readJsonSync fs_empty (resolvePath [''nowhere''] ''ext1'' ''1.0.0_r1'' @ [''manifest.json'']) =
      Inl ENOENT"
    by code_simp
  have dir: "readdirSync fs_empty (path_join [''nowhere''] [''ext1'']) = Inl ENOENT"
    by code_simp
  have flag: "lookup fs_empty ([''nowhere'', ''ext1''] @ [UNINSTALL_FLAG]) = None"
    by code_simp
  have root: "lookup (tree ?st) (path_join [''nowhere''] [''ext1'']) = None"
    by code_simp
  have c1: "listInstalledExtensionIds [''nowhere''] fs_empty = []"
    using th ids by blast
  have c2: "readManifest [''nowhere''] fs_empty ''ext1'' ''1.0.0_r1'' = JObj []"
    using th man by blast
  have c3: "listInstalledVersions plain_semver [''nowhere''] fs_empty ''ext1'' = Inr []"
    using th dir by blast
  have c6: "\<not> isSetForRemoval fs_empty [''nowhere'', ''ext1'']"
    using th flag by blast
  have c7: "\<exists>ex. setForRemoval [''nowhere''] ''ext1'' ?st = Inl ex"
    using th root by blast
  have c8: "loadTranslatedManifest sanitize_string pair_translation [''nowhere''] fs_empty
     ''ext1'' ''1.0.0_r1'' ''en'' = Inl ENOENT"
    using th man by blast
  have names: "readdirSync fs_unreadable (path_join install_root [''ext1'']) =
     Inr [''3.0.0_r1'', ''1.0.0_r1'', ''4.0.0_r1'']"
    by code_simp
  have m3: "readJsonSync fs_unreadable
      (resolvePath install_root ''ext1'' ''3.0.0_r1'' @ [''manifest.json'']) = Inl ENOENT"
    by code_simp
  have m4: "readJsonSync fs_unreadable
      (resolvePath install_root ''ext1'' ''4.0.0_r1'' @ [''manifest.json'']) = Inl SyntaxError"
    by code_simp
  have nonnull: "\<forall>info \<in> set (List.map_filter (parse_entry plain_semver ''ext1'')
             (case readdirSync fs_unreadable (path_join install_root [''ext1'']) of
                Inr names \<Rightarrow> names | Inl ex \<Rightarrow> [])).
        readManifest install_root fs_unreadable (extensionId info) (versionString info) \<noteq> JNull"
    by code_simp
  have kept: "filter (\<lambda>info. manifest_matches install_root fs_unreadable info = Inr True)
       (List.map_filter (parse_entry plain_semver ''ext1'')
          (case readdirSync fs_unreadable (path_join install_root [''ext1'']) of
             Inr names \<Rightarrow> names | Inl ex \<Rightarrow> [])) = [info_of ''ext1'' ''1.0.0'' ''r1'']"
    by code_simp
  have listing: "listInstalledVersions plain_semver install_root fs_unreadable ''ext1'' =
     Inr [info_of ''ext1'' ''1.0.0'' ''r1'']"
    using th' nonnull kept by simp
  have vs: "versionString (info_of ''ext1'' ''1.0.0'' ''r1'') = ''1.0.0_r1''"
    by (simp add: info_of_def)
  have "\<exists>m. readJsonSync fs_unreadable
      (resolvePath install_root ''ext1'' (versionString (info_of ''ext1'' ''1.0.0'' ''r1'')) @
         [''manifest.json'']) = Inr m"
    using th' [THEN conjunct2, THEN conjunct2, THEN conjunct2, THEN conjunct1, rule_format,
        of "[info_of ''ext1'' ''1.0.0'' ''r1'']" "info_of ''ext1'' ''1.0.0'' ''r1''"] listing
    by simp
  then have readable: "\<exists>m. readJsonSync fs_unreadable
      (resolvePath install_root ''ext1'' ''1.0.0_r1'' @ [''manifest.json'']) = Inr m"
    using vs by simp
  show ?thesis
    by (intro conjI) (rule ids c1 c2 c3 c6 c7 c8 names m3 m4 listing readable)+
qed

text \<open>
  C6, counterexample: \<^verbatim>\<open>setForRemoval\<close> is not the only operation that passes an I/O
  fault on.
\<close>

theorem two_operations_propagate_faults:
  "setForRemoval install_root ''ext9'' \<lparr>tree = fs_empty, pending = []\<rparr> = Inl ENOENT \<and>
   loadTranslatedManifest sanitize_string pair_translation install_root fs_empty
     ''ext9'' ''1.0.0_r1'' ''en'' = Inl ENOENT"
  by code_simp

text \<open>
  C7. Exactly one valid version directory and no removal sentinel: \<^verbatim>\<open>ext1\<close> with the
  valid \<^verbatim>\<open>1.0.0_r1\<close> beside \<^verbatim>\<open>2.0.0_r1\<close>, whose \<^verbatim>\<open>manifest.json\<close> holds \<^verbatim>\<open>null\<close> and which
  is no candidate. \<^verbatim>\<open>updateEntry\<close> does not return the valid candidate: the listing
  throws, and the fault leaves \<^verbatim>\<open>updateEntry\<close>. The state is unchanged. (Where the listing
  returns one entry, that entry is returned: \<open>updateEntry_single_listing\<close>.)
\<close>

theorem single_candidate_pass_faults:
  "\<not> isSetForRemoval fs_null (path_join install_root [''ext1'']) \<and>
   readdirSync fs_null (path_join install_root [''ext1'']) = Inr [''1.0.0_r1'', ''2.0.0_r1''] \<and>
   is_candidate plain_semver install_root fs_null ''ext1'' ''1.0.0_r1'' \<and>
   \<not> is_candidate plain_semver install_root fs_null ''ext1'' ''2.0.0_r1'' \<and>
   updateEntry plain_semver install_root ''ext1'' \<lparr>tree = fs_null, pending = []\<rparr> =
     (Inl TypeError, \<lparr>tree = fs_null, pending = []\<rparr>)"
  by code_simp

text \<open>
  C8 (amended). In a pass that finds no removal sentinel, every entry of the listing is
  a valid candidate, so a directory whose name does not parse or whose manifest does not
  match is never one; and such a directory, with everything below it, is the same after
  the pass as before, also when the pass upgrades. (A pass that finds the sentinel
  removes the extension root with everything in it.)
\<close>

theorem invalid_directories_kept:
  assumes "\<not> isSetForRemoval (tree st) (path_join root [e])"
  shows "(\<forall>vs info. listInstalledVersions sv root (tree st) e = Inr vs \<and> info \<in> set vs \<longrightarrow>
            is_candidate sv root (tree st) e (versionString info)) \<and>
         (\<forall>d q. \<not> is_candidate sv root (tree st) e d \<longrightarrow>
            lookup (tree (settle (snd (updateEntry sv root e st)))) (path_join root [e, d] @ q) =
            lookup (tree (settle st)) (path_join root [e, d] @ q))"
  using assms by (auto simp: updateEntry_unflagged_state dest: listed_is_candidate)

text \<open>
  C8, witness: an upgrade pass beside \<^verbatim>\<open>not-a-version\<close> and the mismatching
  \<^verbatim>\<open>2.0.0_abc\<close>.
\<close>

theorem invalid_directories_kept_witness:
  "\<not> isSetForRemoval fs_mixed (path_join install_root [''ext1'']) \<and>
   fst (updateEntry plain_semver install_root ''ext1'' \<lparr>tree = fs_mixed, pending = []\<rparr>) =
     Inr (Some (info_of ''ext1'' ''1.1.0'' ''r1'')) \<and>
   \<not> is_candidate plain_semver install_root fs_mixed ''ext1'' ''not-a-version'' \<and>
   \<not> is_candidate plain_semver install_root fs_mixed ''ext1'' ''2.0.0_abc'' \<and>
   lookup (tree (settle (snd (updateEntry plain_semver install_root ''ext1''
       \<lparr>tree = fs_mixed, pending = []\<rparr>)))) [''data'', ''extensions'', ''ext1'', ''not-a-version''] =
     Some (Dir [(''data.bin'', File None)]) \<and>
   lookup (tree (settle (snd (updateEntry plain_semver install_root ''ext1''
       \<lparr>tree = fs_mixed, pending = []\<rparr>)))) [''data'', ''extensions'', ''ext1'', ''2.0.0_abc''] =
     Some (version_dir ''ext1'' ''1.9.9'')"
proof -
  let ?st = "\<lparr>tree = fs_mixed, pending = []\<rparr>"
  have flag: "\<not> isSetForRemoval fs_mixed (path_join install_root [''ext1''])"
    by code_simp
  have ret: "fst (updateEntry plain_semver install_root ''ext1'' ?st) =
      Inr (Some (info_of ''ext1'' ''1.1.0'' ''r1''))"
    by code_simp
  have c1: "\<not> is_candidate plain_semver install_root fs_mixed ''ext1'' ''not-a-version''"
    by code_simp
  have c2: "\<not> is_candidate plain_semver install_root fs_mixed ''ext1'' ''2.0.0_abc''"
    by code_simp
  have p1: "path_join install_root [''ext1'', ''not-a-version''] @ [] =
      [''data'', ''extensions'', ''ext1'', ''not-a-version'']"
    by code_simp
  have p2: "path_join install_root [''ext1'', ''2.0.0_abc''] @ [] =
      [''data'', ''extensions'', ''ext1'', ''2.0.0_abc'']"
    by code_simp
  have b1: "lookup (tree (settle ?st)) [''data'', ''extensions'', ''ext1'', ''not-a-version''] =
      Some (Dir [(''data.bin'', File None)])"
    by code_simp
  have b2: "lookup (tree (settle ?st)) [''data'', ''extensions'', ''ext1'', ''2.0.0_abc''] =
      Some (version_dir ''ext1'' ''1.9.9'')"
    by code_simp
  have flag': "\<not> isSetForRemoval (tree ?st) (path_join install_root [''ext1''])"
    using flag by simp
  note th = invalid_directories_kept [OF flag', of plain_semver, THEN conjunct2, rule_format]
  have k1: "lookup (tree (settle (snd (updateEntry plain_semver install_root ''ext1'' ?st))))
      [''data'', ''extensions'', ''ext1'', ''not-a-version''] = Some (Dir [(''data.bin'', File None)])"
    using th [of "''not-a-version''" "[]"] c1 p1 b1 by simp
  have k2: "lookup (tree (settle (snd (updateEntry plain_semver install_root ''ext1'' ?st))))
      [''data'', ''extensions'', ''ext1'', ''2.0.0_abc''] = Some (version_dir ''ext1'' ''1.9.9'')"
    using th [of "''2.0.0_abc''" "[]"] c2 p2 b2 by simp
  show ?thesis
    by (intro conjI) (rule flag ret c1 c2 k1 k2)+
qed

text \<open>
  C8, counterexample: a pass that finds the sentinel removes \<^verbatim>\<open>not-a-version\<close> too.
\<close>

theorem flagged_pass_removes_invalid_directory:
  "\<not> is_candidate plain_semver install_root fs_flagged ''ext1'' ''not-a-version'' \<and>
   existsSync fs_flagged (path_join install_root [''ext1'', ''not-a-version'']) \<and>
   \<not> existsSync
       (tree (settle (snd (updateEntry plain_semver install_root ''ext1''
          \<lparr>tree = fs_flagged, pending = []\<rparr>))))
       (path_join install_root [''ext1'', ''not-a-version''])"
  by code_simp

text \<open>
  C9 (amended). From a state in which no removal is under way, and with every started
  removal running to its end, \<^verbatim>\<open>updateEntry\<close> is idempotent, for every extension id and
  every file tree: a second pass leaves the tree of the first pass as it is and returns
  what the first pass returned, and a second call made before the removal of the first
  has run ends in the same tree. With the sentinel present the pass returns
  \<^verbatim>\<open>undefined\<close> and ends with the extension root removed; without it and with a
  listing that is not empty, both passes return the same entry of the listing.
\<close>

theorem updateEntry_settled_idempotent:
  "reconcile_pass sv root e (reconcile_pass sv root e t) = reconcile_pass sv root e t \<and>
   reconcile_outcome sv root e (reconcile_pass sv root e t) = reconcile_outcome sv root e t \<and>
   tree (settle (snd (updateEntry sv root e (snd (updateEntry sv root e \<lparr>tree = t, pending = []\<rparr>))))) =
     reconcile_pass sv root e t \<and>
   (isSetForRemoval t (path_join root [e]) \<longrightarrow>
      reconcile_outcome sv root e t = Inr None \<and>
      reconcile_pass sv root e t = rm (path_join root [e]) t \<and>
      (path_join root [e] \<noteq> [] \<longrightarrow>
         \<not> existsSync (reconcile_pass sv root e t) (path_join root [e]))) \<and>
   (\<forall>vs. \<not> isSetForRemoval t (path_join root [e]) \<and>
      listInstalledVersions sv root t e = Inr vs \<and> vs \<noteq> [] \<longrightarrow>
      (\<exists>info. info \<in> set vs \<and> reconcile_outcome sv root e t = Inr (Some info) \<and>
         reconcile_outcome sv root e (reconcile_pass sv root e t) = Inr (Some info)))"
proof -
  have kept: "\<forall>vs. \<not> isSetForRemoval t (path_join root [e]) \<and>
      listInstalledVersions sv root t e = Inr vs \<and> vs \<noteq> [] \<longrightarrow>
      (\<exists>info. info \<in> set vs \<and> reconcile_outcome sv root e t = Inr (Some info) \<and>
         reconcile_outcome sv root e (reconcile_pass sv root e t) = Inr (Some info))"
  proof (intro allI impI)
    fix vs
    assume a: "\<not> isSetForRemoval t (path_join root [e]) \<and>
      listInstalledVersions sv root t e = Inr vs \<and> vs \<noteq> []"
    let ?st = "\<lparr>tree = t, pending = []\<rparr>"
    note u = updateEntry_undefined_or_info [of ?st root e sv]
    from a u obtain info where i: "fst (updateEntry sv root e ?st) = Inr (Some info)"
      by auto
    with u a have "info \<in> set vs" by auto
    moreover have "reconcile_outcome sv root e t = Inr (Some info)"
      using i by (simp add: reconcile_outcome_def)
    moreover have "reconcile_outcome sv root e (reconcile_pass sv root e t) =
        reconcile_outcome sv root e t"
      using pass_idempotent by blast
    ultimately show "\<exists>info. info \<in> set vs \<and> reconcile_outcome sv root e t = Inr (Some info) \<and>
         reconcile_outcome sv root e (reconcile_pass sv root e t) = Inr (Some info)"
      by auto
  qed
  with pass_idempotent [of sv root e t] show ?thesis by blast
qed

text \<open>
  C9, witness: a marked extension is gone after one pass, and the second pass finds
  nothing.
\<close>

theorem updateEntry_settled_idempotent_witness:
  "isSetForRemoval fs_marked (path_join install_root [''ext1'']) \<and>
   reconcile_outcome plain_semver install_root ''ext1'' fs_marked = Inr None \<and>
   reconcile_pass plain_semver install_root ''ext1'' fs_marked = fs_empty \<and>
   \<not> existsSync (reconcile_pass plain_semver install_root ''ext1'' fs_marked)
       (path_join install_root [''ext1'']) \<and>
   reconcile_outcome plain_semver install_root ''ext1''
     (reconcile_pass plain_semver install_root ''ext1'' fs_marked) = Inr None \<and>
   reconcile_pass plain_semver install_root ''ext1''
     (reconcile_pass plain_semver install_root ''ext1'' fs_marked) = fs_empty"
proof -
  note th = updateEntry_settled_idempotent [of plain_semver install_root "''ext1''" fs_marked]
  have flag: "isSetForRemoval fs_marked (path_join install_root [''ext1''])"
    by code_simp
  have ne: "path_join install_root [''ext1''] \<noteq> []"
    by code_simp
  have r: "rm (path_join install_root [''ext1'']) fs_marked = fs_empty"
    by code_simp
  have out: "reconcile_outcome plain_semver install_root ''ext1'' fs_marked = Inr None"
    using th flag by blast
  have pass: "reconcile_pass plain_semver install_root ''ext1'' fs_marked = fs_empty"
    using th flag r by simp
  have gone: "\<not> existsSync (reconcile_pass plain_semver install_root ''ext1'' fs_marked)
       (path_join install_root [''ext1''])"
    using th flag ne by blast
  have out2: "reconcile_outcome plain_semver install_root ''ext1''
     (reconcile_pass plain_semver install_root ''ext1'' fs_marked) = Inr None"
    using th out by simp
  have pass2: "reconcile_pass plain_semver install_root ''ext1''
     (reconcile_pass plain_semver install_root ''ext1'' fs_marked) = fs_empty"
    using th pass by simp
  show ?thesis
    by (intro conjI) (rule flag out pass gone out2 pass2)+
qed

text \<open>
  C9, counterexample: the pass on a marked extension returns \<^verbatim>\<open>undefined\<close>; when the
  removal it started fails partway, with the sentinel removed and the version directory
  left, the next pass returns that version, and the extension stays.
\<close>

theorem half_removed_extension_stays:
  "reconcile_outcome plain_semver install_root ''ext1'' fs_marked = Inr None \<and>
   reconcile_outcome plain_semver install_root ''ext1''
     (rm_partly (path_join install_root [''ext1'']) [UNINSTALL_FLAG] fs_marked) =
     Inr (Some (info_of ''ext1'' ''1.0.0'' ''r1'')) \<and>
   existsSync
     (reconcile_pass plain_semver install_root ''ext1''
        (rm_partly (path_join install_root [''ext1'']) [UNINSTALL_FLAG] fs_marked))
     (path_join install_root [''ext1'', ''1.0.0_r1''])"
  by code_simp

text \<open>
  C10. No valid version directory and no removal sentinel: \<^verbatim>\<open>ext1\<close> with the single
  directory \<^verbatim>\<open>2.0.0_r1\<close>, whose \<^verbatim>\<open>manifest.json\<close> holds \<^verbatim>\<open>null\<close> and which is no
  candidate. \<^verbatim>\<open>updateEntry\<close> returns neither \<^verbatim>\<open>undefined\<close> nor a \<^verbatim>\<open>VersionInfo\<close>: the
  listing throws, and the fault leaves \<^verbatim>\<open>updateEntry\<close>. (With the sentinel present, or
  with an empty listing, the value is \<^verbatim>\<open>undefined\<close>, and a \<^verbatim>\<open>VersionInfo\<close> is returned
  exactly when there is no sentinel and the listing has an entry:
  \<open>updateEntry_undefined_or_info\<close>.)
\<close>

theorem no_candidate_pass_faults:
  "\<not> isSetForRemoval fs_only_null (path_join install_root [''ext1'']) \<and>
   readdirSync fs_only_null (path_join install_root [''ext1'']) = Inr [''2.0.0_r1''] \<and>
   \<not> is_candidate plain_semver install_root fs_only_null ''ext1'' ''2.0.0_r1'' \<and>
   updateEntry plain_semver install_root ''ext1'' \<lparr>tree = fs_only_null, pending = []\<rparr> =
     (Inl TypeError, \<lparr>tree = fs_only_null, pending = []\<rparr>)"
  by code_simp

end
